theory Spec2Isabelle
  imports Complex_Main
begin

section \<open>The pendulum simulation: data model\<close>

text \<open>
  The repository holds two variants of the simulation: \<^verbatim>\<open>js/pendulum.js\<close> (point-mass and
  compound bodies, energy reported as one array) and an earlier variant,
  \<^verbatim>\<open>unnamed/part_000\<close> (point-mass only, energy reported as an object with the fields
  \<^verbatim>\<open>kinetic\<close> and \<open>potential\<close>). Definitions of the later variant keep the source's names; those
  of the earlier variant carry the suffix \<open>0\<close>.

  Modelling conventions.
  \<^item> A JavaScript number is an IEEE double; it is modelled as a \<^typ>\<open>real\<close>. Rounding,
    overflow, the infinities and NaN have no counterpart: a quotient by zero, the square
    root or the cube root of a negative number and a read past the end of an array (which
    yields \<^verbatim>\<open>undefined\<close>, hence NaN in arithmetic) are outside the model, and the theorems
    below that depend on such a value assume positive lengths and masses and arrays of
    the length the constructor checks. A second translation of the dynamics and the step,
    over numbers with the infinities and NaN, follows a step through a quotient by zero.
  \<^item> A thrown exception is a value of type \<open>error\<close>; a method that mutates the object
    returns the object after the call, also when it throws.
  \<^item> The four arrays of a pendulum are distinct objects (the driver passes array
    literals), so a write to one is not seen through another.
\<close>

definition GRAVITY :: real where
  "GRAVITY = 981 / 100"

definition DENSITY :: real where
  "DENSITY = 99997 / 100"

text \<open>
  \<^verbatim>\<open>INTEGRATION_METHODS\<close> has three members, compared by identity (\<^verbatim>\<open>===\<close>);
  \<open>OTHER_VALUE\<close> stands for every other value the field can hold, such as \<^verbatim>\<open>null\<close>.
\<close>

datatype integration_method = FORWARD_EULER | SEMI_IMPLICIT_EULER | RUNGE_KUTTA | OTHER_VALUE

text \<open>
  \<open>Throw s\<close> is \<^verbatim>\<open>throw s\<close> of the source; \<open>TypeError\<close> is the error JavaScript raises when
  a property of \<^verbatim>\<open>undefined\<close> is read; \<open>SingularSystem\<close> is the failure of the linear solver.
\<close>

datatype error = Throw string | TypeError | SingularSystem

text \<open>
  The options object handed to the constructor. \<open>opt_integration_method = None\<close> is an
  absent (undefined) field; \<open>opt_compound\<close> is the truthiness of the field, absent being
  false.
\<close>

record options =
  opt_lengths :: "real list"
  opt_masses :: "real list"
  opt_thetas :: "real list"
  opt_omegas :: "real list"
  opt_integration_method :: "integration_method option"
  opt_compound :: bool

text \<open>
  The object the constructor builds. \<open>total_length = None\<close> stands for NaN, the sum of a
  number and the \<^verbatim>\<open>undefined\<close> read from an empty \<open>radii\<close>.
\<close>

record pendulum =
  lengths :: "real list"
  masses :: "real list"
  thetas :: "real list"
  omegas :: "real list"
  integration_method :: integration_method
  compound :: bool
  dimension :: nat
  radii :: "real list"
  total_length :: "real option"
  time :: real

section \<open>Construction\<close>

definition radius :: "bool \<Rightarrow> real \<times> real \<Rightarrow> real" where
  "radius c x =
     (let m = fst x; ell = snd x in
      if c then sqrt (m / (pi * ell * DENSITY))
      else ((3 * m) / (4 * pi * DENSITY)) powr (1 / 3))"

definition Pendulum :: "options \<Rightarrow> error + pendulum" where
  "Pendulum opts =
     (let im = (case opt_integration_method opts of
                  None \<Rightarrow> SEMI_IMPLICIT_EULER
                | Some m \<Rightarrow> m)
      in
      if length (opt_lengths opts) \<noteq> length (opt_masses opts)
         \<or> length (opt_masses opts) \<noteq> length (opt_thetas opts)
         \<or> length (opt_thetas opts) \<noteq> length (opt_omegas opts)
      then Inl (Throw ''All parameters must be arrays of the same length.'')
      else
        let rs = fold (\<lambda>x acc. acc @ [radius (opt_compound opts) x])
                   (zip (opt_masses opts) (opt_lengths opts)) [];
            tl = fold (\<lambda>len acc. acc + len) (opt_lengths opts) 0
        in Inr \<lparr> lengths = opt_lengths opts,
                 masses = opt_masses opts,
                 thetas = opt_thetas opts,
                 omegas = opt_omegas opts,
                 integration_method = im,
                 compound = opt_compound opts,
                 dimension = length (opt_lengths opts),
                 radii = rs,
                 total_length = (if rs = [] then None else Some (tl + rs ! (length rs - 1))),
                 time = 0 \<rparr>)"

text \<open>
  The constructor's check makes the four arrays as long as \<open>dimension\<close>; no method
  resizes them.
\<close>

definition well_formed :: "pendulum \<Rightarrow> bool" where
  "well_formed p \<longleftrightarrow>
     length (lengths p) = dimension p \<and> length (masses p) = dimension p
     \<and> length (thetas p) = dimension p \<and> length (omegas p) = dimension p"

definition positive :: "real list \<Rightarrow> bool" where
  "positive xs = list_all (\<lambda>x. 0 < x) xs"

section \<open>Geometry and energy (js/pendulum.js)\<close>

definition getCartesianPositions :: "pendulum \<Rightarrow> (real \<times> real) list" where
  "getCartesianPositions p =
     fst (fold (\<lambda>i (pos, sx, sy).
                 let sx = sx + lengths p ! i * sin (thetas p ! i);
                     sy = sy - lengths p ! i * cos (thetas p ! i)
                 in (pos @ [(sx, sy)], sx, sy))
           [0..<dimension p] ([], 0, 0))"

definition getCentersOfMass :: "pendulum \<Rightarrow> (real \<times> real) list" where
  "getCentersOfMass p =
     (if \<not> compound p then getCartesianPositions p
      else fst (fold (\<lambda>i (pos, sx, sy).
                 let dsx = (1 / 2) * lengths p ! i * sin (thetas p ! i);
                     dsy = (1 / 2) * lengths p ! i * cos (thetas p ! i);
                     sx = sx + dsx;
                     sy = sy - dsy;
                     pos = pos @ [(sx, sy)];
                     sx = sx + dsx;
                     sy = sy - dsy
                 in (pos, sx, sy))
           [0..<dimension p] ([], 0, 0)))"

definition getCartesianVelocities :: "pendulum \<Rightarrow> (real \<times> real) list" where
  "getCartesianVelocities p =
     fst (fold (\<lambda>i (vel, vx, vy).
                 let dvx = lengths p ! i * cos (thetas p ! i) * omegas p ! i;
                     dvy = lengths p ! i * sin (thetas p ! i) * omegas p ! i;
                     dvx = (if compound p then dvx / 2 else dvx);
                     dvy = (if compound p then dvy / 2 else dvy);
                     vx = vx + dvx;
                     vy = vy + dvy;
                     vel = vel @ [(vx, vy)];
                     vx = (if compound p then vx + dvx else vx);
                     vy = (if compound p then vy + dvy else vy)
                 in (vel, vx, vy))
           [0..<dimension p] ([], 0, 0))"

text \<open>
  \<^verbatim>\<open>'Kinetic ' + (i + 1)\<close> appends the decimal representation of the number.
\<close>

fun toString :: "nat \<Rightarrow> string" where
  "toString n =
     (if n < 10 then [''0123456789'' ! n]
      else toString (n div 10) @ [''0123456789'' ! (n mod 10)])"

declare toString.simps [simp del]

definition getEnergyNames :: "pendulum \<Rightarrow> string list" where
  "getEnergyNames p =
     (let range = [0..<dimension p];
          names = [];
          names = fold (\<lambda>i acc. acc @ [''Kinetic '' @ toString (i + 1)]) range names;
          names = fold (\<lambda>i acc. acc @ [''Potential '' @ toString (i + 1)]) range names;
          names = (if compound p
                   then fold (\<lambda>i acc. acc @ [''Angular '' @ toString (i + 1)]) range names
                   else names)
      in names @ [''Total energy''])"

definition getEnergy :: "pendulum \<Rightarrow> real list" where
  "getEnergy p =
     (let pos = getCentersOfMass p;
          vel = getCartesianVelocities p;
          (energy, total) =
            fold (\<lambda>i (energy, total).
                   let t = (1 / 2) * masses p ! i
                             * (fst (vel ! i) * fst (vel ! i) + snd (vel ! i) * snd (vel ! i));
                       u = masses p ! i * GRAVITY * snd (pos ! i);
                       total = total + (t + u);
                       energy = energy @ [t];
                       energy = energy @ [u]
                   in if compound p
                      then let len = lengths p ! i;
                               w = omegas p ! i;
                               at' = (1 / 24) * masses p ! i * len * len * w * w
                           in (energy @ [at'], total + at')
                      else (energy, total))
              [0..<dimension p] ([], 0)
      in energy @ [total])"

text \<open>
  \<^verbatim>\<open>getTotalEnergy\<close> reads \<^verbatim>\<open>energy.kinetic[i]\<close> and \<^verbatim>\<open>energy.potential[i]\<close>, where
  \<^verbatim>\<open>energy\<close> is the array \<^verbatim>\<open>getEnergy\<close> returns. An array of numbers has no property
  of either name (\<open>array_property\<close> is used at these two names only): the lookup yields
  \<^verbatim>\<open>undefined\<close> (here \<open>None\<close>), and indexing \<^verbatim>\<open>undefined\<close> raises a TypeError. The loop is
  the one of both variants; what differs is the value \<^verbatim>\<open>getEnergy\<close> returns.
\<close>

definition array_property :: "string \<Rightarrow> real list \<Rightarrow> real list option" where
  "array_property name arr = None"

fun total_energy_loop ::
  "real list option \<Rightarrow> real list option \<Rightarrow> nat list \<Rightarrow> real \<Rightarrow> error + real" where
  "total_energy_loop kinetic potential [] total_energy = Inr total_energy"
| "total_energy_loop kinetic potential (i # is) total_energy =
     (case kinetic of
        None \<Rightarrow> Inl TypeError
      | Some ks \<Rightarrow>
          (case potential of
             None \<Rightarrow> Inl TypeError
           | Some us \<Rightarrow>
               total_energy_loop kinetic potential is (total_energy + (ks ! i + us ! i))))"

definition getTotalEnergy :: "pendulum \<Rightarrow> error + real" where
  "getTotalEnergy p =
     (let energy = getEnergy p
      in total_energy_loop (array_property ''kinetic'' energy)
           (array_property ''potential'' energy) [0..<dimension p] 0)"

section \<open>Dynamics\<close>

text \<open>
  Modelled from the spec: \<^verbatim>\<open>numeric.solve\<close> belongs to the numeric.js library, which is not
  part of the sources. Following the design (section 4.2), the 2x2 system is solved exactly by
  Cramer's rule, and the solver fails when the matrix is singular.
\<close>

definition numeric_solve ::
  "(real \<times> real) \<times> (real \<times> real) \<Rightarrow> real \<times> real \<Rightarrow> error + real list" where
  "numeric_solve A b =
     (let a00 = fst (fst A); a01 = snd (fst A); a10 = fst (snd A); a11 = snd (snd A);
          b0 = fst b; b1 = snd b;
          det = a00 * a11 - a01 * a10
      in if det = 0 then Inl SingularSystem
         else Inr [(b0 * a11 - a01 * b1) / det, (a00 * b1 - a10 * b0) / det])"

text \<open>
  The torque argument is \<open>None\<close> when it is not an array (\<^verbatim>\<open>undefined\<close> when the caller
  leaves it out). \<open>linearSystem\<close> is the matrix \<open>A\<close> and the vector \<open>b\<close> that
  \<^verbatim>\<open>computeAlphas\<close> of js/pendulum.js hands to the solver when \<open>dimension\<close> is 2; the block
  that used the torque is commented out there, so the argument is never read.
\<close>

definition linearSystem ::
  "pendulum \<Rightarrow> real list \<Rightarrow> real list \<Rightarrow> real list option
     \<Rightarrow> ((real \<times> real) \<times> (real \<times> real)) \<times> (real \<times> real)" where
  "linearSystem p thetas' omegas' torques =
     (let m1 = masses p ! 0; m2 = masses p ! 1;
          t1 = thetas' ! 0; t2 = thetas' ! 1;
          w1 = omegas' ! 0; w2 = omegas' ! 1;
          ell1 = lengths p ! 0; ell2 = lengths p ! 1
      in if compound p then
           let a00 = (m1 / 3 + m2) * ell1;
               a01 = (1 / 2) * m2 * ell2 * cos (t1 - t2);
               b0 = - (1 / 2) * m2 * ell2 * w2 * w2 * sin (t1 - t2);
               b0 = b0 - (m1 / 2 + m2) * GRAVITY * sin t1;
               a10 = (1 / 2) * m2 * ell1 * cos (t1 - t2);
               a11 = (1 / 3) * m2 * ell2;
               b1 = (1 / 2) * m2 * ell1 * w1 * w1 * sin (t1 - t2);
               b1 = b1 - (1 / 2) * m2 * GRAVITY * sin t2
           in (((a00, a01), (a10, a11)), (b0, b1))
         else
           let a00 = (m1 + m2) * ell1;
               a01 = m2 * ell2 * cos (t1 - t2);
               b0 = - m2 * ell2 * w2 * w2 * sin (t1 - t2);
               b0 = b0 - GRAVITY * (m1 + m2) * sin t1;
               a10 = m2 * ell1 * cos (t1 - t2);
               a11 = m2 * ell2;
               b1 = m2 * ell1 * ell2 * w1 * w1 * sin (t1 - t2);
               b1 = b1 - ell2 * m2 * GRAVITY * sin t2
           in (((a00, a01), (a10, a11)), (b0, b1)))"

definition computeAlphas ::
  "pendulum \<Rightarrow> real list \<Rightarrow> real list \<Rightarrow> real list option \<Rightarrow> error + real list" where
  "computeAlphas p thetas' omegas' torques =
     (if dimension p = 1 then
        (if compound p
         then Inr [- (3 * GRAVITY) / (2 * lengths p ! 0) * sin (thetas' ! 0)]
         else Inr [- GRAVITY / lengths p ! 0 * sin (thetas' ! 0)])
      else if dimension p = 2 then
        (let sys = linearSystem p thetas' omegas' torques
         in numeric_solve (fst sys) (snd sys))
      else Inl (Throw ''Not implemented''))"

text \<open>
  The earlier variant (unnamed/part_000) knows point masses only and adds the torque to
  \<open>b\<close> when it is given an array.
\<close>

definition linearSystem0 ::
  "pendulum \<Rightarrow> real list \<Rightarrow> real list \<Rightarrow> real list option
     \<Rightarrow> ((real \<times> real) \<times> (real \<times> real)) \<times> (real \<times> real)" where
  "linearSystem0 p thetas' omegas' torques =
     (let m1 = masses p ! 0; m2 = masses p ! 1;
          t1 = thetas' ! 0; t2 = thetas' ! 1;
          w1 = omegas' ! 0; w2 = omegas' ! 1;
          ell1 = lengths p ! 0; ell2 = lengths p ! 1;
          a00 = (m1 + m2) * ell1;
          a01 = m2 * ell2 * cos (t1 - t2);
          b0 = - m2 * ell2 * w2 * w2 * sin (t1 - t2);
          b0 = b0 - GRAVITY * (m1 + m2) * sin t1;
          a10 = m2 * ell1 * cos (t1 - t2);
          a11 = m2 * ell2;
          b1 = m2 * ell1 * ell2 * w1 * w1 * sin (t1 - t2);
          b1 = b1 - ell2 * m2 * GRAVITY * sin t2
      in case torques of
           None \<Rightarrow> (((a00, a01), (a10, a11)), (b0, b1))
         | Some ts \<Rightarrow>
             let b0 = b0 + ts ! 0 * (t1 - t2) / ell1;
                 b1 = b1 - ts ! 0 * (t1 - t2) / ell2
             in (((a00, a01), (a10, a11)), (b0, b1)))"

definition computeAlphas0 ::
  "pendulum \<Rightarrow> real list \<Rightarrow> real list \<Rightarrow> real list option \<Rightarrow> error + real list" where
  "computeAlphas0 p thetas' omegas' torques =
     (if dimension p = 1 then Inr [- GRAVITY / lengths p ! 0 * sin (thetas' ! 0)]
      else if dimension p = 2 then
        (let sys = linearSystem0 p thetas' omegas' torques
         in numeric_solve (fst sys) (snd sys))
      else Inl (Throw ''Not implemented''))"

section \<open>Time stepping\<close>

text \<open>
  The loops of \<^verbatim>\<open>takeStep\<close> run over \<open>i = 0, ..., n - 1\<close> and touch \<^verbatim>\<open>this.thetas\<close> and
  \<^verbatim>\<open>this.omegas\<close> only; each is a \<open>fold\<close> over the index range whose state is the pair of
  the two arrays. The bound \<open>n\<close> is the number of accelerations the solver returned or the
  dimension. \<^verbatim>\<open>computeAlphas\<close> returns as many accelerations as the pendulum has links
  (lemma \<open>computeAlphas_length\<close>), so for a well-formed pendulum every index is within the
  array it reads or writes. Were it not, JavaScript would read \<^verbatim>\<open>undefined\<close> and extend
  the array written to, where \<open>xs ! i\<close> is unspecified and \<open>xs[i := v]\<close> is \<open>xs\<close>; the
  theorems about the loops therefore assume \<open>well_formed\<close>.
\<close>

type_synonym angular_state = "real list \<times> real list"

definition forward_body :: "real \<Rightarrow> real list \<Rightarrow> nat \<Rightarrow> angular_state \<Rightarrow> angular_state" where
  "forward_body dt alphas i s =
     (let th = fst s; om = snd s;
          th = th[i := th ! i + om ! i * dt];
          om = om[i := om ! i + alphas ! i * dt]
      in (th, om))"

definition semi_body :: "real \<Rightarrow> real list \<Rightarrow> nat \<Rightarrow> angular_state \<Rightarrow> angular_state" where
  "semi_body dt alphas i s =
     (let th = fst s; om = snd s;
          om = om[i := om ! i + alphas ! i * dt];
          th = th[i := th ! i + om ! i * dt]
      in (th, om))"

text \<open>The first stage loop of Runge-Kutta pushes onto two fresh arrays.\<close>

definition stage_push ::
  "pendulum \<Rightarrow> real \<Rightarrow> real list \<Rightarrow> real list \<Rightarrow> nat \<Rightarrow> angular_state \<Rightarrow> angular_state" where
  "stage_push p h omegas_k alphas_k i s =
     (fst s @ [thetas p ! i + h * omegas_k ! i], snd s @ [omegas p ! i + h * alphas_k ! i])"

text \<open>The later stage loops overwrite the local \<^verbatim>\<open>thetas\<close> and push onto a fresh array.\<close>

definition stage_set ::
  "pendulum \<Rightarrow> real \<Rightarrow> real list \<Rightarrow> real list \<Rightarrow> nat \<Rightarrow> angular_state \<Rightarrow> angular_state" where
  "stage_set p h omegas_k alphas_k i s =
     ((fst s)[i := thetas p ! i + h * omegas_k ! i], snd s @ [omegas p ! i + h * alphas_k ! i])"

definition rk_body ::
  "real \<Rightarrow> real list \<Rightarrow> real list \<Rightarrow> real list \<Rightarrow> real list
     \<Rightarrow> real list \<Rightarrow> real list \<Rightarrow> real list \<Rightarrow> real list
     \<Rightarrow> nat \<Rightarrow> angular_state \<Rightarrow> angular_state" where
  "rk_body dt omegas_k1 omegas_k2 omegas_k3 omegas_k4 alphas_k1 alphas_k2 alphas_k3 alphas_k4 i s =
     (let th = fst s; om = snd s;
          theta_step = omegas_k1 ! i + 2 * omegas_k2 ! i + 2 * omegas_k3 ! i + omegas_k4 ! i;
          omega_step = alphas_k1 ! i + 2 * alphas_k2 ! i + 2 * alphas_k3 ! i + alphas_k4 ! i;
          th = th[i := th ! i + (dt / 6) * theta_step];
          om = om[i := om ! i + (dt / 6) * omega_step]
      in (th, om))"

type_synonym solver =
  "pendulum \<Rightarrow> real list \<Rightarrow> real list \<Rightarrow> real list option \<Rightarrow> error + real list"

text \<open>
  \<open>takeStep_with\<close> is the body of \<^verbatim>\<open>takeStep\<close> with the method \<^verbatim>\<open>this.computeAlphas\<close> as
  the parameter \<open>solve\<close>. The result is the exception thrown, if any, and the object
  after the call.
\<close>

definition rungeKutta ::
  "solver \<Rightarrow> real \<Rightarrow> real list option \<Rightarrow> pendulum \<Rightarrow> error option \<times> pendulum" where
  "rungeKutta solve dt torques p =
     (let omegas_k1 = omegas p in
      case solve p (thetas p) (omegas p) torques of
        Inl e \<Rightarrow> (Some e, p)
      | Inr alphas_k1 \<Rightarrow>
     (let s2 = fold (stage_push p (dt / 2) omegas_k1 alphas_k1) [0..<length alphas_k1] ([], []);
          thetas2 = fst s2; omegas_k2 = snd s2 in
      case solve p thetas2 omegas_k2 torques of
        Inl e \<Rightarrow> (Some e, p)
      | Inr alphas_k2 \<Rightarrow>
     (let s3 = fold (stage_set p (dt / 2) omegas_k2 alphas_k2) [0..<length alphas_k2] (thetas2, []);
          thetas3 = fst s3; omegas_k3 = snd s3 in
      case solve p thetas3 omegas_k3 torques of
        Inl e \<Rightarrow> (Some e, p)
      | Inr alphas_k3 \<Rightarrow>
     (let s4 = fold (stage_set p dt omegas_k3 alphas_k3) [0..<length alphas_k3] (thetas3, []);
          thetas4 = fst s4; omegas_k4 = snd s4 in
      case solve p thetas4 omegas_k4 torques of
        Inl e \<Rightarrow> (Some e, p)
      | Inr alphas_k4 \<Rightarrow>
     (let s = fold (rk_body dt omegas_k1 omegas_k2 omegas_k3 omegas_k4
                      alphas_k1 alphas_k2 alphas_k3 alphas_k4)
                [0..<dimension p] (thetas p, omegas p)
      in (None, p\<lparr>thetas := fst s, omegas := snd s\<rparr>))))))"

definition takeStep_with ::
  "solver \<Rightarrow> real \<Rightarrow> real list option \<Rightarrow> pendulum \<Rightarrow> error option \<times> pendulum" where
  "takeStep_with solve dt torques p0 =
     (let p = p0\<lparr>time := time p0 + dt\<rparr> in
      if integration_method p = FORWARD_EULER then
        (case solve p (thetas p) (omegas p) torques of
           Inl e \<Rightarrow> (Some e, p)
         | Inr alphas \<Rightarrow>
             let s = fold (forward_body dt alphas) [0..<length alphas] (thetas p, omegas p)
             in (None, p\<lparr>thetas := fst s, omegas := snd s\<rparr>))
      else if integration_method p = SEMI_IMPLICIT_EULER then
        (case solve p (thetas p) (omegas p) torques of
           Inl e \<Rightarrow> (Some e, p)
         | Inr alphas \<Rightarrow>
             let s = fold (semi_body dt alphas) [0..<length alphas] (thetas p, omegas p)
             in (None, p\<lparr>thetas := fst s, omegas := snd s\<rparr>))
      else if integration_method p = RUNGE_KUTTA then rungeKutta solve dt torques p
      else (None, p))"

text \<open>js/pendulum.js: every call is \<^verbatim>\<open>this.computeAlphas(..., ..., torques)\<close>.\<close>

definition takeStep :: "real \<Rightarrow> real list option \<Rightarrow> pendulum \<Rightarrow> error option \<times> pendulum" where
  "takeStep dt torques p = takeStep_with computeAlphas dt torques p"

text \<open>
  unnamed/part_000: the same text, except that every call is
  \<^verbatim>\<open>this.computeAlphas(..., ...)\<close> with two arguments, so that the solver's third
  parameter is \<^verbatim>\<open>undefined\<close>.
\<close>

definition takeStep0 :: "real \<Rightarrow> real list option \<Rightarrow> pendulum \<Rightarrow> error option \<times> pendulum" where
  "takeStep0 dt torques p =
     takeStep_with (\<lambda>q th om _. computeAlphas0 q th om None) dt torques p"

section \<open>Energy in the earlier variant (unnamed/part_000)\<close>

text \<open>
  There \<^verbatim>\<open>getEnergy\<close> returns an object with the two arrays \<^verbatim>\<open>kinetic\<close> and
  \<^verbatim>\<open>potential\<close>, and \<^verbatim>\<open>getTotalEnergy\<close>, whose text is the same in both variants, finds
  the properties it reads. \<^verbatim>\<open>getCartesianPositions\<close> is the same in both variants.
\<close>

record energy0 =
  kinetic :: "real list"
  potential :: "real list"

definition getCartesianVelocities0 :: "pendulum \<Rightarrow> (real \<times> real) list" where
  "getCartesianVelocities0 p =
     fst (fold (\<lambda>i (vel, vx, vy).
                 let vx = vx + lengths p ! i * cos (thetas p ! i) * omegas p ! i;
                     vy = vy + lengths p ! i * sin (thetas p ! i) * omegas p ! i
                 in (vel @ [(vx, vy)], vx, vy))
           [0..<dimension p] ([], 0, 0))"

definition getEnergy0 :: "pendulum \<Rightarrow> energy0" where
  "getEnergy0 p =
     (let energy = \<lparr>kinetic = [], potential = []\<rparr>;
          pos = getCartesianPositions p;
          vel = getCartesianVelocities0 p
      in fold (\<lambda>i energy.
                let t = (1 / 2) * masses p ! i
                          * (fst (vel ! i) * fst (vel ! i) + snd (vel ! i) * snd (vel ! i));
                    u = masses p ! i * GRAVITY * snd (pos ! i)
                in energy\<lparr>kinetic := kinetic energy @ [t],
                          potential := potential energy @ [u]\<rparr>)
           [0..<dimension p] energy)"

definition getTotalEnergy0 :: "pendulum \<Rightarrow> error + real" where
  "getTotalEnergy0 p =
     (let energy = getEnergy0 p
      in total_energy_loop (Some (kinetic energy)) (Some (potential energy))
           [0..<dimension p] 0)"

section \<open>Example configurations\<close>

text \<open>The single point-mass pendulum of the closed-form check (design, section 8).\<close>

definition single_options :: options where
  "single_options =
     \<lparr> opt_lengths = [1], opt_masses = [2], opt_thetas = [pi / 2], opt_omegas = [0],
       opt_integration_method = None, opt_compound = False \<rparr>"

text \<open>The driver's default: one compound link, stepped by Runge-Kutta.\<close>

definition compound_options :: options where
  "compound_options =
     \<lparr> opt_lengths = [12 / 10], opt_masses = [40], opt_thetas = [pi / 2], opt_omegas = [0],
       opt_integration_method = Some RUNGE_KUTTA, opt_compound = True \<rparr>"

text \<open>A double point-mass pendulum hanging straight down, both links turning.\<close>

definition double_options :: options where
  "double_options =
     \<lparr> opt_lengths = [1, 1], opt_masses = [1, 1], opt_thetas = [0, 0], opt_omegas = [1, 1],
       opt_integration_method = None, opt_compound = False \<rparr>"

text \<open>A double point-mass pendulum at rest with the first link horizontal.\<close>

definition bent_options :: options where
  "bent_options =
     \<lparr> opt_lengths = [1, 1], opt_masses = [1, 1], opt_thetas = [pi / 2, 0], opt_omegas = [0, 0],
       opt_integration_method = None, opt_compound = False \<rparr>"

text \<open>Three links: accepted by the constructor, refused by the dynamics.\<close>

definition triple_options :: options where
  "triple_options =
     \<lparr> opt_lengths = [1, 1, 1], opt_masses = [1, 1, 1], opt_thetas = [0, 0, 0],
       opt_omegas = [0, 0, 0], opt_integration_method = None, opt_compound = False \<rparr>"

text \<open>Two lengths and one mass: refused by the constructor.\<close>

definition mismatched_options :: options where
  "mismatched_options =
     \<lparr> opt_lengths = [1, 1], opt_masses = [1], opt_thetas = [0, 0], opt_omegas = [0, 0],
       opt_integration_method = None, opt_compound = False \<rparr>"

text \<open>
  The driver leaves the method \<^verbatim>\<open>null\<close> when no radio button is checked; \<^verbatim>\<open>null\<close> is
  not \<^verbatim>\<open>undefined\<close>, so the constructor's default does not replace it.
\<close>

definition null_method_options :: options where
  "null_method_options =
     \<lparr> opt_lengths = [1], opt_masses = [2], opt_thetas = [pi / 2], opt_omegas = [1],
       opt_integration_method = Some OTHER_VALUE, opt_compound = False \<rparr>"

text \<open>The objects the constructor builds from these options.\<close>

definition single_pendulum :: pendulum where
  "single_pendulum =
     \<lparr> lengths = [1], masses = [2], thetas = [pi / 2], omegas = [0],
       integration_method = SEMI_IMPLICIT_EULER, compound = False, dimension = 1,
       radii = [radius False (2, 1)], total_length = Some (1 + radius False (2, 1)),
       time = 0 \<rparr>"

definition compound_pendulum :: pendulum where
  "compound_pendulum =
     \<lparr> lengths = [12 / 10], masses = [40], thetas = [pi / 2], omegas = [0],
       integration_method = RUNGE_KUTTA, compound = True, dimension = 1,
       radii = [radius True (40, 12 / 10)],
       total_length = Some (12 / 10 + radius True (40, 12 / 10)),
       time = 0 \<rparr>"

definition double_pendulum :: pendulum where
  "double_pendulum =
     \<lparr> lengths = [1, 1], masses = [1, 1], thetas = [0, 0], omegas = [1, 1],
       integration_method = SEMI_IMPLICIT_EULER, compound = False, dimension = 2,
       radii = [radius False (1, 1), radius False (1, 1)],
       total_length = Some (2 + radius False (1, 1)),
       time = 0 \<rparr>"

definition bent_pendulum :: pendulum where
  "bent_pendulum =
     \<lparr> lengths = [1, 1], masses = [1, 1], thetas = [pi / 2, 0], omegas = [0, 0],
       integration_method = SEMI_IMPLICIT_EULER, compound = False, dimension = 2,
       radii = [radius False (1, 1), radius False (1, 1)],
       total_length = Some (2 + radius False (1, 1)),
       time = 0 \<rparr>"

definition triple_pendulum :: pendulum where
  "triple_pendulum =
     \<lparr> lengths = [1, 1, 1], masses = [1, 1, 1], thetas = [0, 0, 0], omegas = [0, 0, 0],
       integration_method = SEMI_IMPLICIT_EULER, compound = False, dimension = 3,
       radii = [radius False (1, 1), radius False (1, 1), radius False (1, 1)],
       total_length = Some (3 + radius False (1, 1)),
       time = 0 \<rparr>"

definition null_method_pendulum :: pendulum where
  "null_method_pendulum =
     \<lparr> lengths = [1], masses = [2], thetas = [pi / 2], omegas = [1],
       integration_method = OTHER_VALUE, compound = False, dimension = 1,
       radii = [radius False (2, 1)], total_length = Some (1 + radius False (2, 1)),
       time = 0 \<rparr>"

section \<open>A step over numbers that need not be finite\<close>

text \<open>
  The reals have no value for a quotient by zero, which in JavaScript is an infinity or
  NaN. To follow a step through such a value, the dynamics and the step of js/pendulum.js
  are translated a second time over the type \<open>number\<close>, whose finite values are the reals
  and whose other values are the two infinities and NaN, with the arithmetic of IEEE 754
  on them. Rounding and overflow of finite values stay out of the model, and zero has no
  sign: where the sign of a quotient depends on the sign of a zero divisor, the zero is
  taken as \<open>+0\<close>, which is what the literal \<^verbatim>\<open>0\<close> denotes. Definitions of this translation
  carry the suffix \<open>_n\<close>.
\<close>

datatype number = Fin real | PInf | NInf | NaN

instantiation number :: "{uminus, plus, minus, times, inverse}"
begin

fun uminus_number :: "number \<Rightarrow> number" where
  "uminus_number (Fin a) = Fin (- a)"
| "uminus_number PInf = NInf"
| "uminus_number NInf = PInf"
| "uminus_number NaN = NaN"

fun plus_number :: "number \<Rightarrow> number \<Rightarrow> number" where
  "plus_number NaN b = NaN"
| "plus_number a NaN = NaN"
| "plus_number PInf NInf = NaN"
| "plus_number NInf PInf = NaN"
| "plus_number PInf b = PInf"
| "plus_number a PInf = PInf"
| "plus_number NInf b = NInf"
| "plus_number a NInf = NInf"
| "plus_number (Fin a) (Fin b) = Fin (a + b)"

definition minus_number :: "number \<Rightarrow> number \<Rightarrow> number" where
  "minus_number a b = a + (- b)"

fun times_number :: "number \<Rightarrow> number \<Rightarrow> number" where
  "times_number NaN b = NaN"
| "times_number a NaN = NaN"
| "times_number (Fin a) (Fin b) = Fin (a * b)"
| "times_number (Fin a) PInf = (if a = 0 then NaN else if 0 < a then PInf else NInf)"
| "times_number (Fin a) NInf = (if a = 0 then NaN else if 0 < a then NInf else PInf)"
| "times_number PInf (Fin b) = (if b = 0 then NaN else if 0 < b then PInf else NInf)"
| "times_number NInf (Fin b) = (if b = 0 then NaN else if 0 < b then NInf else PInf)"
| "times_number PInf PInf = PInf"
| "times_number PInf NInf = NInf"
| "times_number NInf PInf = NInf"
| "times_number NInf NInf = PInf"

fun divide_number :: "number \<Rightarrow> number \<Rightarrow> number" where
  "divide_number NaN b = NaN"
| "divide_number a NaN = NaN"
| "divide_number (Fin a) (Fin b) =
     (if b = 0 then (if a = 0 then NaN else if 0 < a then PInf else NInf)
      else Fin (a / b))"
| "divide_number (Fin a) PInf = Fin 0"
| "divide_number (Fin a) NInf = Fin 0"
| "divide_number PInf (Fin b) = (if 0 \<le> b then PInf else NInf)"
| "divide_number NInf (Fin b) = (if 0 \<le> b then NInf else PInf)"
| "divide_number PInf PInf = NaN"
| "divide_number PInf NInf = NaN"
| "divide_number NInf PInf = NaN"
| "divide_number NInf NInf = NaN"

definition inverse_number :: "number \<Rightarrow> number" where
  "inverse_number a = divide (Fin 1) a"

instance ..

end





text \<open>The fields of the object that a step reads or writes.\<close>

record pendulum_n =
  lengths_n :: "number list"
  masses_n :: "number list"
  thetas_n :: "number list"
  omegas_n :: "number list"
  integration_method_n :: integration_method
  compound_n :: bool
  dimension_n :: nat
  time_n :: number

definition to_number :: "pendulum \<Rightarrow> pendulum_n" where
  "to_number p =
     \<lparr> lengths_n = map Fin (lengths p), masses_n = map Fin (masses p),
       thetas_n = map Fin (thetas p), omegas_n = map Fin (omegas p),
       integration_method_n = integration_method p, compound_n = compound p,
       dimension_n = dimension p, time_n = Fin (time p) \<rparr>"
















section \<open>Auxiliary facts\<close>

subsection \<open>The constructor\<close>

lemma fold_push_map: "fold (\<lambda>x acc. acc @ [f x]) xs ys = ys @ map f xs"
  by (induction xs arbitrary: ys) simp_all

lemma Pendulum_well_formed: "Pendulum opts = Inr p \<Longrightarrow> well_formed p"
  by (auto simp: Pendulum_def well_formed_def Let_def split: if_splits)

lemma Pendulum_single: "Pendulum single_options = Inr single_pendulum"
  by (simp add: Pendulum_def single_options_def single_pendulum_def)

lemma Pendulum_compound: "Pendulum compound_options = Inr compound_pendulum"
  by (simp add: Pendulum_def compound_options_def compound_pendulum_def)

lemma Pendulum_double: "Pendulum double_options = Inr double_pendulum"
  by (simp add: Pendulum_def double_options_def double_pendulum_def)

lemma Pendulum_bent: "Pendulum bent_options = Inr bent_pendulum"
  by (simp add: Pendulum_def bent_options_def bent_pendulum_def)

lemma Pendulum_triple: "Pendulum triple_options = Inr triple_pendulum"
  by (simp add: Pendulum_def triple_options_def triple_pendulum_def)

lemma Pendulum_null_method: "Pendulum null_method_options = Inr null_method_pendulum"
  by (simp add: Pendulum_def null_method_options_def null_method_pendulum_def)

lemma positive_nth: "positive xs \<Longrightarrow> i < length xs \<Longrightarrow> 0 < xs ! i"
  by (simp add: positive_def list_all_length)

subsection \<open>The loops of a step\<close>

lemma fold_forward_body:
  "n \<le> length th \<Longrightarrow> n \<le> length om \<Longrightarrow>
   fold (forward_body dt alphas) [0..<n] (th, om) =
     (map (\<lambda>i. th ! i + om ! i * dt) [0..<n] @ drop n th,
      map (\<lambda>i. om ! i + alphas ! i * dt) [0..<n] @ drop n om)"
proof (induction n)
  case 0
  then show ?case by simp
next
  case (Suc n)
  then have n: "n < length th" "n < length om" by simp_all
  have d: "\<And>xs::real list. n < length xs \<Longrightarrow> drop n xs = xs ! n # drop (Suc n) xs"
    by (simp add: Cons_nth_drop_Suc)
  from Suc n show ?case
    by (simp add: forward_body_def Let_def list_update_append nth_append d)
qed

lemma fold_semi_body:
  "n \<le> length th \<Longrightarrow> n \<le> length om \<Longrightarrow>
   fold (semi_body dt alphas) [0..<n] (th, om) =
     (map (\<lambda>i. th ! i + (om ! i + alphas ! i * dt) * dt) [0..<n] @ drop n th,
      map (\<lambda>i. om ! i + alphas ! i * dt) [0..<n] @ drop n om)"
proof (induction n)
  case 0
  then show ?case by simp
next
  case (Suc n)
  then have n: "n < length th" "n < length om" by simp_all
  have d: "\<And>xs::real list. n < length xs \<Longrightarrow> drop n xs = xs ! n # drop (Suc n) xs"
    by (simp add: Cons_nth_drop_Suc)
  from Suc n show ?case
    by (simp add: semi_body_def Let_def list_update_append nth_append d)
qed




subsection \<open>The dynamics\<close>

lemma computeAlphas_time [simp]:
  "computeAlphas (p\<lparr>time := t\<rparr>) th om tq = computeAlphas p th om tq"
  by (simp add: computeAlphas_def linearSystem_def)

lemma computeAlphas0_time [simp]:
  "computeAlphas0 (p\<lparr>time := t\<rparr>) th om tq = computeAlphas0 p th om tq"
  by (simp add: computeAlphas0_def linearSystem0_def)

lemma numeric_solve_length: "numeric_solve A b = Inr a \<Longrightarrow> length a = 2"
  by (auto simp: numeric_solve_def Let_def split: if_splits)

lemma computeAlphas_length: "computeAlphas p th om tq = Inr a \<Longrightarrow> length a = dimension p"
  by (auto simp: computeAlphas_def Let_def dest: numeric_solve_length split: if_splits)

lemma computeAlphas0_length: "computeAlphas0 p th om tq = Inr a \<Longrightarrow> length a = dimension p"
  by (auto simp: computeAlphas0_def Let_def dest: numeric_solve_length split: if_splits)

text \<open>
  The determinant of the point-mass system is \<open>m2 l1 l2 (m1 + m2 sin\<^sup>2 x)\<close>, that of the
  compound system \<open>m2 l1 l2 (m1 / 9 + m2 / 12 + m2 sin\<^sup>2 x / 4)\<close>, where \<open>x\<close> is the
  difference of the two angles: positive lengths and masses make the system regular.
\<close>

lemma det_point_mass:
  fixes m1 m2 l1 l2 x :: real
  assumes "0 < m1" "0 < m2" "0 < l1" "0 < l2"
  shows "(m1 + m2) * l1 * (m2 * l2) - m2 * l2 * cos x * (m2 * l1 * cos x) \<noteq> 0"
proof -
  define s where "s = sin x * sin x"
  have c: "cos x * cos x = 1 - s"
    using cos_squared_eq [of x] by (simp add: power2_eq_square s_def)
  have s: "0 \<le> s" by (simp add: s_def)
  have "(m1 + m2) * l1 * (m2 * l2) - m2 * l2 * cos x * (m2 * l1 * cos x)
          = m2 * l1 * l2 * (m1 + m2 - m2 * (cos x * cos x))"
    by (simp add: algebra_simps)
  also have "\<dots> = m2 * l1 * l2 * (m1 + m2 * s)"
    unfolding c by (simp add: algebra_simps)
  finally have eq: "(m1 + m2) * l1 * (m2 * l2) - m2 * l2 * cos x * (m2 * l1 * cos x)
          = m2 * l1 * l2 * (m1 + m2 * s)" .
  have "0 \<le> m2 * s" using assms s by simp
  then have "0 < m1 + m2 * s" using assms by linarith
  then have "0 < m2 * l1 * l2 * (m1 + m2 * s)" using assms by simp
  then show ?thesis unfolding eq by (rule less_imp_neq [THEN not_sym])
qed

lemma det_compound:
  fixes m1 m2 l1 l2 x :: real
  assumes "0 < m1" "0 < m2" "0 < l1" "0 < l2"
  shows "(m1 / 3 + m2) * l1 * ((1 / 3) * m2 * l2)
           - (1 / 2) * m2 * l2 * cos x * ((1 / 2) * m2 * l1 * cos x) \<noteq> 0"
proof -
  define s where "s = sin x * sin x"
  have c: "cos x * cos x = 1 - s"
    using cos_squared_eq [of x] by (simp add: power2_eq_square s_def)
  have s: "0 \<le> s" by (simp add: s_def)
  have "(m1 / 3 + m2) * l1 * ((1 / 3) * m2 * l2)
           - (1 / 2) * m2 * l2 * cos x * ((1 / 2) * m2 * l1 * cos x)
          = m2 * l1 * l2 * (m1 / 9 + m2 / 3 - m2 * (cos x * cos x) / 4)"
    by (simp add: algebra_simps)
  also have "\<dots> = m2 * l1 * l2 * (m1 / 9 + m2 / 12 + m2 * s / 4)"
    unfolding c by (simp add: field_simps)
  finally have eq: "(m1 / 3 + m2) * l1 * ((1 / 3) * m2 * l2)
           - (1 / 2) * m2 * l2 * cos x * ((1 / 2) * m2 * l1 * cos x)
          = m2 * l1 * l2 * (m1 / 9 + m2 / 12 + m2 * s / 4)" .
  have "0 \<le> m2 * s / 4" using assms s by simp
  then have "0 < m1 / 9 + m2 / 12 + m2 * s / 4" using assms by linarith
  then have "0 < m2 * l1 * l2 * (m1 / 9 + m2 / 12 + m2 * s / 4)" using assms by simp
  then show ?thesis unfolding eq by (rule less_imp_neq [THEN not_sym])
qed

lemma computeAlphas_succeeds:
  assumes wf: "well_formed p" and dim: "dimension p = 1 \<or> dimension p = 2"
    and pos: "positive (lengths p)" "positive (masses p)"
  shows "\<exists>a. computeAlphas p th om tq = Inr a"
proof (cases "dimension p = 1")
  case True
  then show ?thesis by (simp add: computeAlphas_def)
next
  case False
  with dim have d: "dimension p = 2" by simp
  with wf have len: "length (lengths p) = 2" "length (masses p) = 2"
    by (simp_all add: well_formed_def)
  have m: "0 < masses p ! 0" "0 < masses p ! 1" "0 < lengths p ! 0" "0 < lengths p ! 1"
    using pos len by (simp_all add: positive_nth)
  show ?thesis
    using det_point_mass [OF m, of "th ! 0 - th ! 1"] det_compound [OF m, of "th ! 0 - th ! 1"]
    by (simp add: computeAlphas_def d linearSystem_def numeric_solve_def Let_def)
qed


subsection \<open>Steps that fail or do nothing\<close>

lemma takeStep_with_other:
  "integration_method p = OTHER_VALUE \<Longrightarrow>
   takeStep_with solve dt tq p = (None, p\<lparr>time := time p + dt\<rparr>)"
  by (simp add: takeStep_with_def)

lemma rungeKutta_fails:
  "fst (rungeKutta solve dt tq p) = Some e \<Longrightarrow> snd (rungeKutta solve dt tq p) = p"
  by (auto simp: rungeKutta_def Let_def split: sum.splits)

lemma takeStep_with_fails:
  "fst (takeStep_with solve dt tq p) = Some e \<Longrightarrow>
   snd (takeStep_with solve dt tq p) = p\<lparr>time := time p + dt\<rparr>"
  by (auto simp: takeStep_with_def Let_def rungeKutta_fails split: sum.splits if_splits)

lemma takeStep_with_throws:
  assumes "integration_method p \<noteq> OTHER_VALUE"
    and "\<And>q th om. dimension q = dimension p \<Longrightarrow> solve q th om tq = Inl e"
  shows "takeStep_with solve dt tq p = (Some e, p\<lparr>time := time p + dt\<rparr>)"
  using assms by (cases "integration_method p") (simp_all add: takeStep_with_def rungeKutta_def)

subsection \<open>A step keeps the arrays' lengths\<close>

lemma fold_keeps_lengths:
  assumes "\<And>i s. length (fst (f i s)) = length (fst s) \<and> length (snd (f i s)) = length (snd s)"
  shows "length (fst (fold f js s)) = length (fst s) \<and> length (snd (fold f js s)) = length (snd s)"
  by (induction js arbitrary: s) (simp_all add: assms)

lemma rungeKutta_well_formed:
  "well_formed p \<Longrightarrow> well_formed (snd (rungeKutta solve dt tq p))"
  using fold_keeps_lengths [of "rk_body dt _ _ _ _ _ _ _ _" _ "(thetas p, omegas p)"]
  by (auto simp: rungeKutta_def well_formed_def rk_body_def Let_def split: sum.splits)

lemma takeStep_with_well_formed:
  assumes "well_formed p"
  shows "well_formed (snd (takeStep_with solve dt tq p))"
proof -
  have t: "well_formed (p\<lparr>time := time p + dt\<rparr>)"
    using assms by (simp add: well_formed_def)
  have f: "length (fst (fold (forward_body dt a) js s)) = length (fst s)
           \<and> length (snd (fold (forward_body dt a) js s)) = length (snd s)" for a js s
    by (rule fold_keeps_lengths) (simp add: forward_body_def Let_def)
  have g: "length (fst (fold (semi_body dt a) js s)) = length (fst s)
           \<and> length (snd (fold (semi_body dt a) js s)) = length (snd s)" for a js s
    by (rule fold_keeps_lengths) (simp add: semi_body_def Let_def)
  show ?thesis
  proof (cases "integration_method p")
    case FORWARD_EULER
    then show ?thesis
      using assms f by (auto simp: takeStep_with_def well_formed_def Let_def split: sum.splits)
  next
    case SEMI_IMPLICIT_EULER
    then show ?thesis
      using assms g by (auto simp: takeStep_with_def well_formed_def Let_def split: sum.splits)
  next
    case RUNGE_KUTTA
    then show ?thesis
      using rungeKutta_well_formed [OF t] by (simp add: takeStep_with_def)
  next
    case OTHER_VALUE
    then show ?thesis
      using t by (simp add: takeStep_with_def)
  qed
qed

lemma takeStep_well_formed:
  "well_formed p \<Longrightarrow> well_formed (snd (takeStep dt tq p))"
  "well_formed p \<Longrightarrow> well_formed (snd (takeStep0 dt tq p))"
  by (simp_all add: takeStep_def takeStep0_def takeStep_with_well_formed)

section \<open>Claims about a step\<close>

text \<open>
  C10. When the integration method is none of the three schemes (\<^verbatim>\<open>null\<close>, say),
  \<^verbatim>\<open>takeStep\<close> throws nothing and leaves every angle and every angular velocity as it
  was, yet adds \<open>dt\<close> to \<open>time\<close>: the only field of the object that changes is \<open>time\<close>.
  This holds for both variants of \<^verbatim>\<open>takeStep\<close>.
\<close>

theorem unrecognized_method_only_advances_time:
  "integration_method p = OTHER_VALUE \<Longrightarrow>
     takeStep dt torques p = (None, p\<lparr>time := time p + dt\<rparr>)
     \<and> takeStep0 dt torques p = (None, p\<lparr>time := time p + dt\<rparr>)"
  by (simp add: takeStep_def takeStep0_def takeStep_with_other)

text \<open>
  The pendulum built with a \<^verbatim>\<open>null\<close> method keeps \<open>\<theta> = \<pi>/2\<close> and \<open>\<omega> = 1\<close> over a step
  of 0.005 s, while its time moves from 0 to 0.005.
\<close>

theorem unrecognized_method_witness:
  "Pendulum null_method_options = Inr null_method_pendulum
   \<and> integration_method null_method_pendulum = OTHER_VALUE
   \<and> takeStep (5 / 1000) (Some [1 / 2]) null_method_pendulum
       = (None, null_method_pendulum\<lparr>time := 5 / 1000\<rparr>)
   \<and> thetas (snd (takeStep (5 / 1000) (Some [1 / 2]) null_method_pendulum)) = [pi / 2]
   \<and> omegas (snd (takeStep (5 / 1000) (Some [1 / 2]) null_method_pendulum)) = [1]
   \<and> time (snd (takeStep (5 / 1000) (Some [1 / 2]) null_method_pendulum)) = 5 / 1000"
proof -
  have m: "integration_method null_method_pendulum = OTHER_VALUE"
    by (simp add: null_method_pendulum_def)
  show ?thesis
    using unrecognized_method_only_advances_time [OF m, of "5 / 1000" "Some [1 / 2]"]
    by (simp add: Pendulum_null_method) (simp add: null_method_pendulum_def)
qed

text \<open>
  C2, as stated, fails: \<^verbatim>\<open>this.time += dt\<close> is the first statement of \<^verbatim>\<open>takeStep\<close>, before
  the accelerations are computed. A step of the three-link pendulum throws
  \<^verbatim>\<open>"Not implemented"\<close>, and the object it leaves behind has its time advanced from 0 to
  0.005.
\<close>

theorem failed_step_advances_time:
  "Pendulum triple_options = Inr triple_pendulum
   \<and> takeStep (5 / 1000) (Some [0]) triple_pendulum
       = (Some (Throw ''Not implemented''), triple_pendulum\<lparr>time := 5 / 1000\<rparr>)
   \<and> time triple_pendulum = 0
   \<and> time (snd (takeStep (5 / 1000) (Some [0]) triple_pendulum)) \<noteq> time triple_pendulum"
proof -
  have "takeStep (5 / 1000) (Some [0]) triple_pendulum
          = (Some (Throw ''Not implemented''),
             triple_pendulum\<lparr>time := time triple_pendulum + 5 / 1000\<rparr>)"
    unfolding takeStep_def
    by (rule takeStep_with_throws) (simp_all add: triple_pendulum_def computeAlphas_def)
  then show ?thesis
    by (simp add: Pendulum_triple) (simp add: triple_pendulum_def)
qed

text \<open>
  C2, amended. Whenever a step throws, under any of the three schemes and at whichever
  evaluation of the dynamics, the object is the one before the call except for \<open>time\<close>,
  which has been advanced by \<open>dt\<close>: the angles, the angular velocities and all other
  fields are untouched, since the per-link updates come after the last evaluation. This
  holds for both variants of \<^verbatim>\<open>takeStep\<close>.
\<close>

theorem failed_step_keeps_angles:
  "(fst (takeStep dt torques p) = Some e \<longrightarrow>
      snd (takeStep dt torques p) = p\<lparr>time := time p + dt\<rparr>)
   \<and> (fst (takeStep0 dt torques p) = Some e \<longrightarrow>
      snd (takeStep0 dt torques p) = p\<lparr>time := time p + dt\<rparr>)"
  by (simp add: takeStep_def takeStep0_def takeStep_with_fails)

text \<open>The failing step of the three-link pendulum, in both variants.\<close>

theorem failed_step_keeps_angles_witness:
  "fst (takeStep (5 / 1000) None triple_pendulum) = Some (Throw ''Not implemented'')
   \<and> thetas (snd (takeStep (5 / 1000) None triple_pendulum)) = [0, 0, 0]
   \<and> omegas (snd (takeStep (5 / 1000) None triple_pendulum)) = [0, 0, 0]
   \<and> time (snd (takeStep (5 / 1000) None triple_pendulum)) = 5 / 1000
   \<and> fst (takeStep0 (5 / 1000) None triple_pendulum) = Some (Throw ''Not implemented'')
   \<and> snd (takeStep0 (5 / 1000) None triple_pendulum) = triple_pendulum\<lparr>time := 5 / 1000\<rparr>"
proof -
  have a: "takeStep (5 / 1000) None triple_pendulum
          = (Some (Throw ''Not implemented''),
             triple_pendulum\<lparr>time := time triple_pendulum + 5 / 1000\<rparr>)"
    unfolding takeStep_def
    by (rule takeStep_with_throws) (simp_all add: triple_pendulum_def computeAlphas_def)
  have b: "takeStep0 (5 / 1000) None triple_pendulum
          = (Some (Throw ''Not implemented''),
             triple_pendulum\<lparr>time := time triple_pendulum + 5 / 1000\<rparr>)"
    unfolding takeStep0_def
    by (rule takeStep_with_throws) (simp_all add: triple_pendulum_def computeAlphas0_def)
  have f: "fst (takeStep (5 / 1000) None triple_pendulum) = Some (Throw ''Not implemented'')"
    "fst (takeStep0 (5 / 1000) None triple_pendulum) = Some (Throw ''Not implemented'')"
    using a b by simp_all
  show ?thesis
    using failed_step_keeps_angles
            [of "5 / 1000" None triple_pendulum "Throw ''Not implemented''"] f
    by (simp add: triple_pendulum_def)
qed

section \<open>Claims about construction\<close>

text \<open>
  C7. The constructor throws its validation error exactly when the four arrays do not
  all have one length, and builds an object exactly when they do; a failed construction
  yields the error and no object. Three links of equal length are accepted (the object has
  dimension 3), and only the first step on that object throws \<^verbatim>\<open>"Not implemented"\<close>; two
  lengths with one mass are refused.
\<close>

theorem construction_validates_lengths:
  "(Pendulum opts = Inl (Throw ''All parameters must be arrays of the same length.'')
      \<longleftrightarrow> \<not> (length (opt_lengths opts) = length (opt_masses opts)
              \<and> length (opt_masses opts) = length (opt_thetas opts)
              \<and> length (opt_thetas opts) = length (opt_omegas opts)))
   \<and> ((\<exists>p. Pendulum opts = Inr p)
      \<longleftrightarrow> (length (opt_lengths opts) = length (opt_masses opts)
              \<and> length (opt_masses opts) = length (opt_thetas opts)
              \<and> length (opt_thetas opts) = length (opt_omegas opts)))
   \<and> Pendulum triple_options = Inr triple_pendulum
   \<and> dimension triple_pendulum = 3
   \<and> fst (takeStep dt torques triple_pendulum) = Some (Throw ''Not implemented'')
   \<and> Pendulum mismatched_options
       = Inl (Throw ''All parameters must be arrays of the same length.'')"
proof -
  have "takeStep dt torques triple_pendulum
          = (Some (Throw ''Not implemented''),
             triple_pendulum\<lparr>time := time triple_pendulum + dt\<rparr>)"
    unfolding takeStep_def
    by (rule takeStep_with_throws) (simp_all add: triple_pendulum_def computeAlphas_def)
  moreover have "dimension triple_pendulum = 3"
    by (simp add: triple_pendulum_def)
  moreover have "Pendulum mismatched_options
       = Inl (Throw ''All parameters must be arrays of the same length.'')"
    by (simp add: Pendulum_def mismatched_options_def)
  ultimately show ?thesis
    by (simp add: Pendulum_triple) (auto simp: Pendulum_def Let_def)
qed

text \<open>
  Two lengths against one mass: the error and no object. Three links: an object.
\<close>

theorem construction_validates_lengths_witness:
  "Pendulum mismatched_options
     = Inl (Throw ''All parameters must be arrays of the same length.'')
   \<and> length (opt_lengths mismatched_options) = 2
   \<and> length (opt_masses mismatched_options) = 1
   \<and> (\<nexists>p. Pendulum mismatched_options = Inr p)
   \<and> (\<exists>p. Pendulum triple_options = Inr p)
   \<and> length (opt_lengths triple_options) = 3"
  using construction_validates_lengths [of mismatched_options 0 None]
    construction_validates_lengths [of triple_options 0 None]
  by (simp add: mismatched_options_def triple_options_def)

lemma radii_nth:
  assumes "Pendulum opts = Inr p" "i < dimension p"
  shows "radii p ! i = radius (compound p) (masses p ! i, lengths p ! i)"
  using assms
  by (auto simp: Pendulum_def Let_def fold_push_map split: if_splits)

lemma cube_of_cube_root:
  fixes x :: real
  assumes "0 < x"
  shows "(x powr (1 / 3)) ^ 3 = x"
proof -
  have "(x powr (1 / 3)) ^ 3 = (x powr (1 / 3)) powr 3"
    by simp
  also have "\<dots> = x powr ((1 / 3) * 3)"
    by (rule powr_powr)
  also have "\<dots> = x"
    using assms by simp
  finally show ?thesis .
qed

lemma sphere_radius:
  assumes "0 < m"
  shows "(4 / 3) * pi * radius False (m, ell) ^ 3 * DENSITY = m"
proof -
  have d: "0 < DENSITY" by (simp add: DENSITY_def)
  then have "0 < (3 * m) / (4 * pi * DENSITY)" using assms by simp
  then have "radius False (m, ell) ^ 3 = (3 * m) / (4 * pi * DENSITY)"
    by (simp add: radius_def cube_of_cube_root)
  then show ?thesis using d by simp
qed

lemma cylinder_radius:
  assumes "0 < m" "0 < ell"
  shows "pi * radius True (m, ell) ^ 2 * ell * DENSITY = m"
proof -
  have d: "0 < DENSITY" by (simp add: DENSITY_def)
  then have "0 \<le> m / (pi * ell * DENSITY)" using assms by simp
  then have "radius True (m, ell) ^ 2 = m / (pi * ell * DENSITY)"
    by (simp add: radius_def)
  then show ?thesis using d assms by simp
qed

text \<open>
  C9. For a pendulum the constructor has built from positive masses and lengths, the
  radius of link \<open>i\<close> is \<open>(3 m\<^sub>i / (4 \<pi> 999.97))\<^sup>1\<^sup>/\<^sup>3\<close> for point masses and
  \<open>sqrt (m\<^sub>i / (\<pi> l\<^sub>i 999.97))\<close> for compound links. The first is the radius of the sphere of
  that density and mass (\<open>4/3 \<pi> r\<^sup>3 \<rho> = m\<close>), the second solves \<open>\<pi> r\<^sup>2 l \<rho> = m\<close>. For mass 2
  (point mass) and for mass 40, length 1.2 (compound) the radii are the two closed forms
  of the design.
\<close>

theorem radii_closed_forms:
  assumes "Pendulum opts = Inr p" and "i < dimension p"
    and "positive (masses p)" and "positive (lengths p)"
  shows "radii p ! i =
           (if compound p
            then sqrt (masses p ! i / (pi * lengths p ! i * (99997 / 100)))
            else ((3 * masses p ! i) / (4 * pi * (99997 / 100))) powr (1 / 3))
         \<and> (compound p \<longrightarrow> pi * (radii p ! i) ^ 2 * lengths p ! i * (99997 / 100) = masses p ! i)
         \<and> (\<not> compound p \<longrightarrow> (4 / 3) * pi * (radii p ! i) ^ 3 * (99997 / 100) = masses p ! i)
         \<and> radii single_pendulum = [((3 * 2) / (4 * pi * (99997 / 100))) powr (1 / 3)]
         \<and> radii compound_pendulum = [sqrt (40 / (pi * (12 / 10) * (99997 / 100)))]"
proof -
  have wf: "well_formed p" using assms(1) by (rule Pendulum_well_formed)
  with assms have m: "0 < masses p ! i" "0 < lengths p ! i"
    by (simp_all add: positive_nth well_formed_def)
  have r: "radii p ! i = radius (compound p) (masses p ! i, lengths p ! i)"
    using assms(1,2) by (rule radii_nth)
  have 1: "radii p ! i =
           (if compound p
            then sqrt (masses p ! i / (pi * lengths p ! i * (99997 / 100)))
            else ((3 * masses p ! i) / (4 * pi * (99997 / 100))) powr (1 / 3))"
    by (simp add: r radius_def DENSITY_def)
  have 2: "compound p \<longrightarrow> pi * (radii p ! i) ^ 2 * lengths p ! i * (99997 / 100) = masses p ! i"
    using cylinder_radius [OF m] by (simp add: r DENSITY_def)
  have 3: "\<not> compound p \<longrightarrow> (4 / 3) * pi * (radii p ! i) ^ 3 * (99997 / 100) = masses p ! i"
    using sphere_radius [OF m(1), of "lengths p ! i"] by (simp add: r DENSITY_def)
  have 4: "radii single_pendulum = [((3 * 2) / (4 * pi * (99997 / 100))) powr (1 / 3)]"
    by (simp add: single_pendulum_def radius_def DENSITY_def)
  have 5: "radii compound_pendulum = [sqrt (40 / (pi * (12 / 10) * (99997 / 100)))]"
    by (simp add: compound_pendulum_def radius_def DENSITY_def)
  from 1 2 3 4 5 show ?thesis by blast
qed

text \<open>The driver's compound link of 40 kg and 1.2 m.\<close>

theorem radii_closed_forms_witness:
  "Pendulum compound_options = Inr compound_pendulum
   \<and> radii compound_pendulum ! 0 = sqrt (40 / (pi * (12 / 10) * (99997 / 100)))
   \<and> pi * (radii compound_pendulum ! 0) ^ 2 * (12 / 10) * (99997 / 100) = 40"
proof -
  have a: "(0::nat) < dimension compound_pendulum" "positive (masses compound_pendulum)"
    "positive (lengths compound_pendulum)"
    by (simp_all add: compound_pendulum_def positive_def)
  show ?thesis
    using radii_closed_forms [OF Pendulum_compound a]
    by (simp add: Pendulum_compound)
qed

section \<open>Claims about the dynamics\<close>

lemma computeAlphas_not_implemented:
  "computeAlphas p th om tq = Inl (Throw ''Not implemented'')
     \<longleftrightarrow> dimension p \<noteq> 1 \<and> dimension p \<noteq> 2"
  by (auto simp: computeAlphas_def numeric_solve_def Let_def split: if_splits)

lemma alphas_bent:
  "computeAlphas bent_pendulum [pi / 2, 0] [0, 0] tq = Inr [- (981 / 100), 0]"
  by (simp add: computeAlphas_def linearSystem_def numeric_solve_def bent_pendulum_def
        GRAVITY_def Let_def)

text \<open>
  C6. \<^verbatim>\<open>computeAlphas\<close> throws \<^verbatim>\<open>"Not implemented"\<close> exactly when the dimension is neither 1
  nor 2, whatever state it is evaluated at; a step under one of the three schemes then
  throws it at its first evaluation, before any angle is touched. For dimension 1 or 2
  with positive lengths and masses it throws nothing and returns one acceleration per
  link.
\<close>

theorem unsupported_dimension:
  "(computeAlphas p th om tq = Inl (Throw ''Not implemented'')
      \<longleftrightarrow> dimension p \<noteq> 1 \<and> dimension p \<noteq> 2)
   \<and> (dimension p \<noteq> 1 \<and> dimension p \<noteq> 2 \<and> integration_method p \<noteq> OTHER_VALUE
        \<longrightarrow> takeStep dt tq p = (Some (Throw ''Not implemented''), p\<lparr>time := time p + dt\<rparr>))
   \<and> (well_formed p \<and> (dimension p = 1 \<or> dimension p = 2)
        \<and> positive (lengths p) \<and> positive (masses p)
        \<longrightarrow> (\<exists>alphas. computeAlphas p th om tq = Inr alphas \<and> length alphas = dimension p))"
proof -
  have 2: "takeStep dt tq p = (Some (Throw ''Not implemented''), p\<lparr>time := time p + dt\<rparr>)"
    if "dimension p \<noteq> 1 \<and> dimension p \<noteq> 2 \<and> integration_method p \<noteq> OTHER_VALUE"
    unfolding takeStep_def
    using that by (intro takeStep_with_throws) (simp_all add: computeAlphas_not_implemented)
  have 3: "\<exists>alphas. computeAlphas p th om tq = Inr alphas \<and> length alphas = dimension p"
    if "well_formed p \<and> (dimension p = 1 \<or> dimension p = 2)
        \<and> positive (lengths p) \<and> positive (masses p)"
  proof -
    from that obtain a where "computeAlphas p th om tq = Inr a"
      using computeAlphas_succeeds [of p th om tq] by blast
    then show ?thesis using computeAlphas_length by blast
  qed
  from 2 3 show ?thesis
    using computeAlphas_not_implemented [of p th om tq] by blast
qed

text \<open>
  The three-link pendulum is refused; the double pendulum with its first link horizontal
  gets the accelerations \<open>-9.81\<close> and \<open>0\<close>.
\<close>

theorem unsupported_dimension_witness:
  "computeAlphas triple_pendulum [0, 0, 0] [0, 0, 0] None = Inl (Throw ''Not implemented'')
   \<and> takeStep (5 / 1000) None triple_pendulum
       = (Some (Throw ''Not implemented''), triple_pendulum\<lparr>time := 5 / 1000\<rparr>)
   \<and> computeAlphas bent_pendulum [pi / 2, 0] [0, 0] None = Inr [- (981 / 100), 0]"
proof -
  have t: "dimension triple_pendulum \<noteq> 1 \<and> dimension triple_pendulum \<noteq> 2
           \<and> integration_method triple_pendulum \<noteq> OTHER_VALUE" "time triple_pendulum = 0"
    by (simp_all add: triple_pendulum_def)
  have b: "well_formed bent_pendulum \<and> (dimension bent_pendulum = 1 \<or> dimension bent_pendulum = 2)
        \<and> positive (lengths bent_pendulum) \<and> positive (masses bent_pendulum)"
    by (simp add: bent_pendulum_def well_formed_def positive_def)
  show ?thesis
    using unsupported_dimension [of triple_pendulum "[0, 0, 0]" "[0, 0, 0]" None "5 / 1000"]
      unsupported_dimension [of bent_pendulum "[pi / 2, 0]" "[0, 0]" None 0] t b
    by (simp add: alphas_bent)
qed

section \<open>Claims about the integration schemes\<close>

text \<open>
  Closed forms of the two Euler loops, for any solver that returns one acceleration per
  link, and the step of length zero.
\<close>

lemma takeStep_with_semi:
  assumes wf: "well_formed p" and m: "integration_method p = SEMI_IMPLICIT_EULER"
    and a: "solve (p\<lparr>time := time p + dt\<rparr>) (thetas p) (omegas p) tq = Inr alphas"
    and len: "length alphas = dimension p"
  shows "takeStep_with solve dt tq p =
           (None, p\<lparr>time := time p + dt,
                    omegas := map (\<lambda>i. omegas p ! i + alphas ! i * dt) [0..<dimension p],
                    thetas := map (\<lambda>i. thetas p ! i + (omegas p ! i + alphas ! i * dt) * dt)
                                [0..<dimension p]\<rparr>)"
proof -
  have l: "dimension p \<le> length (thetas p)" "dimension p \<le> length (omegas p)"
    "length (thetas p) = dimension p" "length (omegas p) = dimension p"
    using wf by (simp_all add: well_formed_def)
  show ?thesis
    using m a by (simp add: takeStep_with_def len fold_semi_body l)
qed

lemma takeStep_with_forward:
  assumes wf: "well_formed p" and m: "integration_method p = FORWARD_EULER"
    and a: "solve (p\<lparr>time := time p + dt\<rparr>) (thetas p) (omegas p) tq = Inr alphas"
    and len: "length alphas = dimension p"
  shows "takeStep_with solve dt tq p =
           (None, p\<lparr>time := time p + dt,
                    thetas := map (\<lambda>i. thetas p ! i + omegas p ! i * dt) [0..<dimension p],
                    omegas := map (\<lambda>i. omegas p ! i + alphas ! i * dt) [0..<dimension p]\<rparr>)"
proof -
  have l: "dimension p \<le> length (thetas p)" "dimension p \<le> length (omegas p)"
    "length (thetas p) = dimension p" "length (omegas p) = dimension p"
    using wf by (simp_all add: well_formed_def)
  show ?thesis
    using m a by (simp add: takeStep_with_def len fold_forward_body l)
qed





lemma semi_thetas_via_new_omegas:
  "map (\<lambda>i. th ! i + map (\<lambda>i. om ! i + al ! i * dt) [0..<n] ! i * dt) [0..<n]
     = map (\<lambda>i. th ! i + (om ! i + al ! i * dt) * (dt::real)) [0..<n]"
  by (rule map_cong [OF refl]) simp

lemma alphas_single:
  "computeAlphas single_pendulum [pi / 2] [0] tq = Inr [- (981 / 100)]"
  "computeAlphas0 single_pendulum [pi / 2] [0] None = Inr [- (981 / 100)]"
  by (simp_all add: computeAlphas_def computeAlphas0_def single_pendulum_def GRAVITY_def)

text \<open>
  C1. Under semi-implicit Euler a step evaluates the accelerations once, at the current
  angles and angular velocities, and then sets, for every link \<open>i\<close>,
  \<open>\<omega>\<^sub>i := \<omega>\<^sub>i + \<alpha>\<^sub>i dt\<close> and \<open>\<theta>\<^sub>i := \<theta>\<^sub>i + \<omega>\<^sub>i' dt\<close> with the updated velocity \<open>\<omega>\<^sub>i'\<close>; time
  advances by \<open>dt\<close> and nothing else changes. This holds for both variants (the earlier
  one evaluates the accelerations without the torque). For the single point-mass pendulum
  with length 1, mass 2, \<open>\<theta> = \<pi>/2\<close>, \<open>\<omega> = 0\<close> and \<open>dt = 0.005\<close> the acceleration is
  \<open>-9.81\<close>, the new velocity \<open>-0.04905\<close> and the new angle \<open>\<pi>/2 - 0.00024525\<close>.
\<close>

theorem semi_implicit_step:
  "(well_formed p \<and> integration_method p = SEMI_IMPLICIT_EULER
      \<and> computeAlphas p (thetas p) (omegas p) torques = Inr alphas
    \<longrightarrow> takeStep dt torques p =
          (let omegas' = map (\<lambda>i. omegas p ! i + alphas ! i * dt) [0..<dimension p];
               thetas' = map (\<lambda>i. thetas p ! i + omegas' ! i * dt) [0..<dimension p]
           in (None, p\<lparr>time := time p + dt, omegas := omegas', thetas := thetas'\<rparr>)))
   \<and> (well_formed p \<and> integration_method p = SEMI_IMPLICIT_EULER
      \<and> computeAlphas0 p (thetas p) (omegas p) None = Inr alphas
    \<longrightarrow> takeStep0 dt torques p =
          (let omegas' = map (\<lambda>i. omegas p ! i + alphas ! i * dt) [0..<dimension p];
               thetas' = map (\<lambda>i. thetas p ! i + omegas' ! i * dt) [0..<dimension p]
           in (None, p\<lparr>time := time p + dt, omegas := omegas', thetas := thetas'\<rparr>)))
   \<and> Pendulum single_options = Inr single_pendulum
   \<and> computeAlphas single_pendulum (thetas single_pendulum) (omegas single_pendulum) torques
       = Inr [- (981 / 100)]
   \<and> takeStep (5 / 1000) torques single_pendulum =
       (None, single_pendulum\<lparr>time := 5 / 1000,
                omegas := [- (4905 / 100000)],
                thetas := [pi / 2 - 24525 / 100000000]\<rparr>)"
proof -
  have 1: "takeStep dt torques p =
          (let omegas' = map (\<lambda>i. omegas p ! i + alphas ! i * dt) [0..<dimension p];
               thetas' = map (\<lambda>i. thetas p ! i + omegas' ! i * dt) [0..<dimension p]
           in (None, p\<lparr>time := time p + dt, omegas := omegas', thetas := thetas'\<rparr>))"
    if h: "well_formed p \<and> integration_method p = SEMI_IMPLICIT_EULER
      \<and> computeAlphas p (thetas p) (omegas p) torques = Inr alphas"
  proof -
    from h have len: "length alphas = dimension p"
      using computeAlphas_length by blast
    show ?thesis
      unfolding takeStep_def Let_def semi_thetas_via_new_omegas
      using h by (intro takeStep_with_semi) (simp_all add: len)
  qed
  have 2: "takeStep0 dt torques p =
          (let omegas' = map (\<lambda>i. omegas p ! i + alphas ! i * dt) [0..<dimension p];
               thetas' = map (\<lambda>i. thetas p ! i + omegas' ! i * dt) [0..<dimension p]
           in (None, p\<lparr>time := time p + dt, omegas := omegas', thetas := thetas'\<rparr>))"
    if h: "well_formed p \<and> integration_method p = SEMI_IMPLICIT_EULER
      \<and> computeAlphas0 p (thetas p) (omegas p) None = Inr alphas"
  proof -
    from h have len: "length alphas = dimension p"
      using computeAlphas0_length by blast
    show ?thesis
      unfolding takeStep0_def Let_def semi_thetas_via_new_omegas
      using h by (intro takeStep_with_semi) (simp_all add: len)
  qed
  have s: "well_formed single_pendulum"
    "integration_method single_pendulum = SEMI_IMPLICIT_EULER"
    "thetas single_pendulum = [pi / 2]" "omegas single_pendulum = [0]"
    "dimension single_pendulum = 1" "time single_pendulum = 0"
    by (simp_all add: single_pendulum_def well_formed_def)
  have 4: "computeAlphas single_pendulum (thetas single_pendulum) (omegas single_pendulum) torques
       = Inr [- (981 / 100)]"
    by (simp add: s alphas_single)
  have "takeStep_with computeAlphas (5 / 1000) torques single_pendulum =
           (None, single_pendulum\<lparr>time := time single_pendulum + 5 / 1000,
              omegas := map (\<lambda>i. omegas single_pendulum ! i + [- (981 / 100)] ! i * (5 / 1000))
                          [0..<dimension single_pendulum],
              thetas := map (\<lambda>i. thetas single_pendulum ! i
                                  + (omegas single_pendulum ! i + [- (981 / 100)] ! i * (5 / 1000))
                                    * (5 / 1000))
                          [0..<dimension single_pendulum]\<rparr>)"
    by (rule takeStep_with_semi) (simp_all add: s alphas_single)
  then have 5: "takeStep (5 / 1000) torques single_pendulum =
       (None, single_pendulum\<lparr>time := 5 / 1000,
                omegas := [- (4905 / 100000)],
                thetas := [pi / 2 - 24525 / 100000000]\<rparr>)"
    by (simp add: takeStep_def s)
  from 1 2 4 5 Pendulum_single show ?thesis by blast
qed

text \<open>
  The double pendulum with its first link horizontal, stepped by 0.1 s: accelerations
  \<open>-9.81\<close> and \<open>0\<close>, new velocities \<open>-0.981\<close> and \<open>0\<close>, new angles \<open>\<pi>/2 - 0.0981\<close> and \<open>0\<close>.
\<close>

theorem semi_implicit_step_witness:
  "well_formed bent_pendulum
   \<and> integration_method bent_pendulum = SEMI_IMPLICIT_EULER
   \<and> computeAlphas bent_pendulum (thetas bent_pendulum) (omegas bent_pendulum) (Some [1 / 2])
       = Inr [- (981 / 100), 0]
   \<and> takeStep (1 / 10) (Some [1 / 2]) bent_pendulum
       = (None, bent_pendulum\<lparr>time := 1 / 10,
                  omegas := [- (981 / 1000), 0],
                  thetas := [pi / 2 - 981 / 10000, 0]\<rparr>)"
proof -
  have b: "well_formed bent_pendulum"
    "integration_method bent_pendulum = SEMI_IMPLICIT_EULER"
    "thetas bent_pendulum = [pi / 2, 0]" "omegas bent_pendulum = [0, 0]"
    "dimension bent_pendulum = 2" "time bent_pendulum = 0"
    by (simp_all add: bent_pendulum_def well_formed_def)
  have a: "computeAlphas bent_pendulum (thetas bent_pendulum) (omegas bent_pendulum) (Some [1 / 2])
       = Inr [- (981 / 100), 0]"
    by (simp add: b alphas_bent)
  have u: "[0..<2] = [0, 1]"
    by (simp add: upt_rec)
  show ?thesis
    using semi_implicit_step [of bent_pendulum "Some [1 / 2]" "[- (981 / 100), 0]" "1 / 10"] a b
    by (simp add: Let_def u)
qed

subsection \<open>The step over numbers\<close>



lemma Fin_minus [simp]: "Fin a - Fin b = Fin (a - b)"
  by (simp add: minus_number_def)

lemma Fin_divide: "b \<noteq> 0 \<Longrightarrow> Fin a / Fin b = Fin (a / b)"
  by simp







lemma to_number_fields [simp]:
  "lengths_n (to_number p) = map Fin (lengths p)"
  "masses_n (to_number p) = map Fin (masses p)"
  "thetas_n (to_number p) = map Fin (thetas p)"
  "omegas_n (to_number p) = map Fin (omegas p)"
  "integration_method_n (to_number p) = integration_method p"
  "compound_n (to_number p) = compound p"
  "dimension_n (to_number p) = dimension p"
  "time_n (to_number p) = Fin (time p)"
  by (simp_all add: to_number_def)









section \<open>Claims about the energy\<close>

text \<open>
  The energy of \<open>double_pendulum\<close>, the object the constructor builds from
  \<open>double_options\<close> (lemma \<open>Pendulum_double\<close>): the double pendulum hanging straight down,
  both links turning.
\<close>

lemma upt_2: "[0..<2] = [0, 1]"
  by (simp add: upt_rec)

lemma toString_digits:
  "toString (Suc 0) = ''1''" "toString (Suc (Suc 0)) = ''2''" "toString 2 = ''2''"
  by (subst toString.simps, simp)+

lemma names_double:
  "getEnergyNames double_pendulum =
     [''Kinetic 1'', ''Kinetic 2'', ''Potential 1'', ''Potential 2'', ''Total energy'']"
  by (simp add: getEnergyNames_def double_pendulum_def upt_2 toString_digits)

lemma positions_double: "getCartesianPositions double_pendulum = [(0, - 1), (0, - 2)]"
  by (simp add: getCartesianPositions_def double_pendulum_def upt_2 Let_def)

lemma velocities_double: "getCartesianVelocities double_pendulum = [(1, 0), (2, 0)]"
  by (simp add: getCartesianVelocities_def double_pendulum_def upt_2 Let_def)

lemma velocities0_double: "getCartesianVelocities0 double_pendulum = [(1, 0), (2, 0)]"
  by (simp add: getCartesianVelocities0_def double_pendulum_def upt_2 Let_def)

lemma centers_double: "getCentersOfMass double_pendulum = [(0, - 1), (0, - 2)]"
  by (simp add: getCentersOfMass_def positions_double) (simp add: double_pendulum_def)

lemma double_fields:
  "dimension double_pendulum = 2" "masses double_pendulum = [1, 1]"
  "compound double_pendulum = False"
  by (simp_all add: double_pendulum_def)

lemma energy_double:
  "getEnergy double_pendulum = [1 / 2, - (981 / 100), 2, - (1962 / 100), - (2693 / 100)]"
  by (simp add: getEnergy_def centers_double velocities_double double_fields upt_2 GRAVITY_def
        Let_def)

lemma energy0_double:
  "getEnergy0 double_pendulum =
     \<lparr>kinetic = [1 / 2, 2], potential = [- (981 / 100), - (1962 / 100)]\<rparr>"
  by (simp add: getEnergy0_def positions_double velocities0_double double_fields upt_2
        GRAVITY_def Let_def)

lemma getTotalEnergy_raises: "0 < dimension p \<Longrightarrow> getTotalEnergy p = Inl TypeError"
  by (simp add: getTotalEnergy_def array_property_def upt_conv_Cons)

text \<open>
  C4 fails on js/pendulum.js for two links. \<^verbatim>\<open>getEnergy\<close> interleaves the components link
  by link (kinetic 1, potential 1, kinetic 2, potential 2, total), whereas
  \<^verbatim>\<open>getEnergyNames\<close> groups them by kind (Kinetic 1, Kinetic 2, Potential 1, Potential 2,
  Total energy). For the double pendulum the value at index 1 is the potential energy of
  link 1 and carries the name \<open>Kinetic 2\<close>; the value at index 2 is the kinetic energy of
  link 2 and carries the name \<open>Potential 1\<close>; the two values differ.
\<close>

theorem energy_names_mismatch:
  "getEnergyNames double_pendulum =
       [''Kinetic 1'', ''Kinetic 2'', ''Potential 1'', ''Potential 2'', ''Total energy'']
   \<and> getEnergy double_pendulum = [1 / 2, - (981 / 100), 2, - (1962 / 100), - (2693 / 100)]
   \<and> getEnergyNames double_pendulum ! 1 = ''Kinetic 2''
   \<and> getEnergy double_pendulum ! 1
       = masses double_pendulum ! 0 * GRAVITY * snd (getCentersOfMass double_pendulum ! 0)
   \<and> getEnergyNames double_pendulum ! 2 = ''Potential 1''
   \<and> getEnergy double_pendulum ! 2
       = (1 / 2) * masses double_pendulum ! 1
         * (fst (getCartesianVelocities double_pendulum ! 1)
              * fst (getCartesianVelocities double_pendulum ! 1)
            + snd (getCartesianVelocities double_pendulum ! 1)
              * snd (getCartesianVelocities double_pendulum ! 1))
   \<and> getEnergy double_pendulum ! 1 \<noteq> getEnergy double_pendulum ! 2"
  by (simp add: names_double energy_double centers_double velocities_double double_fields
        GRAVITY_def)

text \<open>
  C5 fails on js/pendulum.js: \<^verbatim>\<open>getTotalEnergy\<close> still reads \<^verbatim>\<open>energy.kinetic\<close> and
  \<^verbatim>\<open>energy.potential\<close>, which the array returned by \<^verbatim>\<open>getEnergy\<close> does not have, and
  raises a TypeError in its first iteration. For the double pendulum the components sum to
  \<open>-26.93\<close>, which is what the earlier variant's \<^verbatim>\<open>getTotalEnergy\<close> returns; the same
  error is raised for the single pendulum.
\<close>

theorem total_energy_raises:
  "getEnergy double_pendulum = [1 / 2, - (981 / 100), 2, - (1962 / 100), - (2693 / 100)]
   \<and> getTotalEnergy double_pendulum = Inl TypeError
   \<and> getTotalEnergy0 double_pendulum = Inr (- (2693 / 100))
   \<and> getTotalEnergy single_pendulum = Inl TypeError"
proof -
  have "getTotalEnergy0 double_pendulum = Inr (- (2693 / 100))"
    by (simp add: getTotalEnergy0_def energy0_double double_fields upt_2)
  moreover have "getTotalEnergy single_pendulum = Inl TypeError"
    by (rule getTotalEnergy_raises) (simp add: single_pendulum_def)
  moreover have "getTotalEnergy double_pendulum = Inl TypeError"
    by (rule getTotalEnergy_raises) (simp add: double_fields)
  ultimately show ?thesis
    by (simp add: energy_double)
qed

section \<open>Claims about the torque\<close>

text \<open>
  Whatever the solver, a step hands it the step's own torque argument at every
  evaluation: replacing the solver by one that is always given \<open>tq\<close> changes nothing.
\<close>

lemma rungeKutta_forwards:
  "rungeKutta solve dt tq p = rungeKutta (\<lambda>q th om _. solve q th om tq) dt tq' p"
  by (simp add: rungeKutta_def)

lemma takeStep_with_forwards:
  "takeStep_with solve dt tq p = takeStep_with (\<lambda>q th om _. solve q th om tq) dt tq' p"
  unfolding takeStep_with_def
  by (simp add: rungeKutta_forwards [of solve dt tq _ tq'] cong: if_cong)

lemma linearSystem_ignores_torque: "linearSystem p th om tq = linearSystem p th om None"
  by (simp add: linearSystem_def)

lemma computeAlphas_ignores_torque: "computeAlphas p th om tq = computeAlphas p th om None"
  by (simp add: computeAlphas_def linearSystem_ignores_torque [of p th om tq])

lemma takeStep_ignores_torque: "takeStep dt tq p = takeStep dt None p"
proof -
  have "takeStep dt tq p = takeStep_with (\<lambda>q th om _. computeAlphas q th om tq) dt None p"
    unfolding takeStep_def by (rule takeStep_with_forwards)
  also have "(\<lambda>q th om _. computeAlphas q th om tq)
               = (\<lambda>q th om (_::real list option). computeAlphas q th om None)"
    by (simp add: computeAlphas_ignores_torque [of _ _ _ tq])
  also have "takeStep_with (\<lambda>q th om _. computeAlphas q th om None) dt None p = takeStep dt None p"
    unfolding takeStep_def by (rule takeStep_with_forwards [symmetric])
  finally show ?thesis .
qed

lemma takeStep0_ignores_torque: "takeStep0 dt tq p = takeStep0 dt None p"
  unfolding takeStep0_def
  by (simp add: takeStep_with_forwards [of "\<lambda>q th om _. computeAlphas0 q th om None" dt tq p None])

lemma system_bent:
  "linearSystem bent_pendulum [pi / 2, 0] [0, 0] tq = (((2, 0), (0, 1)), (- (1962 / 100), 0))"
  by (simp add: linearSystem_def bent_pendulum_def GRAVITY_def Let_def)

lemma system0_bent:
  "linearSystem0 bent_pendulum [pi / 2, 0] [0, 0] None = (((2, 0), (0, 1)), (- (1962 / 100), 0))"
  "linearSystem0 bent_pendulum [pi / 2, 0] [0, 0] (Some [1 / 2])
     = (((2, 0), (0, 1)), (- (1962 / 100) + pi / 4, - (pi / 4)))"
  by (simp_all add: linearSystem0_def bent_pendulum_def GRAVITY_def Let_def)

text \<open>
  C3, as stated, fails. In js/pendulum.js the vector \<open>b\<close> of the double pendulum with its
  first link horizontal is \<open>(-19.62, 0)\<close> with the torque \<open>[0.5]\<close> as without it, not
  \<open>(-19.62 + \<pi>/4, -\<pi>/4)\<close>, and a step with the torque is the step without it. In the
  earlier variant \<^verbatim>\<open>computeAlphas\<close> would build \<open>(-19.62 + \<pi>/4, -\<pi>/4)\<close> from the torque,
  but \<^verbatim>\<open>takeStep\<close> does not hand it on, and the step is again the step without a torque.
\<close>

theorem torque_not_applied:
  "linearSystem bent_pendulum [pi / 2, 0] [0, 0] (Some [1 / 2])
     = (((2, 0), (0, 1)), (- (1962 / 100), 0))
   \<and> linearSystem bent_pendulum [pi / 2, 0] [0, 0] None
     = (((2, 0), (0, 1)), (- (1962 / 100), 0))
   \<and> fst (snd (linearSystem bent_pendulum [pi / 2, 0] [0, 0] (Some [1 / 2])))
       \<noteq> fst (snd (linearSystem bent_pendulum [pi / 2, 0] [0, 0] None))
           + (1 / 2) * (pi / 2 - 0) / lengths bent_pendulum ! 0
   \<and> snd (snd (linearSystem bent_pendulum [pi / 2, 0] [0, 0] (Some [1 / 2])))
       \<noteq> snd (snd (linearSystem bent_pendulum [pi / 2, 0] [0, 0] None))
           - (1 / 2) * (pi / 2 - 0) / lengths bent_pendulum ! 1
   \<and> takeStep (1 / 10) (Some [1 / 2]) bent_pendulum = takeStep (1 / 10) None bent_pendulum
   \<and> linearSystem0 bent_pendulum [pi / 2, 0] [0, 0] (Some [1 / 2])
       = (((2, 0), (0, 1)), (- (1962 / 100) + pi / 4, - (pi / 4)))
   \<and> takeStep0 (1 / 10) (Some [1 / 2]) bent_pendulum = takeStep0 (1 / 10) None bent_pendulum"
  using takeStep_ignores_torque [of "1 / 10" "Some [1 / 2]" bent_pendulum]
    takeStep0_ignores_torque [of "1 / 10" "Some [1 / 2]" bent_pendulum]
  by (simp add: system_bent system0_bent) (simp add: bent_pendulum_def)

text \<open>
  C3, amended. In js/pendulum.js a step hands its torque argument unchanged to every
  evaluation of the dynamics (one under the Euler schemes, four under Runge-Kutta), but
  \<^verbatim>\<open>computeAlphas\<close> never reads it, for point masses and compound links alike: the linear
  system, the accelerations and the step are those of a call without a torque. Only
  \<^verbatim>\<open>computeAlphas\<close> of the earlier variant, given a non-empty torque array at dimension
  2, adds \<open>torques[0] (\<theta>\<^sub>1 - \<theta>\<^sub>2) / l\<^sub>1\<close> to \<open>b\<^sub>0\<close> and subtracts \<open>torques[0] (\<theta>\<^sub>1 - \<theta>\<^sub>2) / l\<^sub>2\<close> from
  \<open>b\<^sub>1\<close>, leaving the matrix as it is.
\<close>

theorem torque_forwarded_and_ignored:
  "takeStep_with solve dt torques p
     = takeStep_with (\<lambda>q th om _. solve q th om torques) dt None p
   \<and> linearSystem p th om torques = linearSystem p th om None
   \<and> computeAlphas p th om torques = computeAlphas p th om None
   \<and> takeStep dt torques p = takeStep dt None p
   \<and> (well_formed p \<and> dimension p = 2 \<and> length th = 2 \<and> ts \<noteq> []
        \<longrightarrow> linearSystem0 p th om (Some ts)
            = (fst (linearSystem0 p th om None),
               (fst (snd (linearSystem0 p th om None))
                  + ts ! 0 * (th ! 0 - th ! 1) / lengths p ! 0,
                snd (snd (linearSystem0 p th om None))
                  - ts ! 0 * (th ! 0 - th ! 1) / lengths p ! 1)))"
proof -
  have "linearSystem0 p th om (Some ts)
            = (fst (linearSystem0 p th om None),
               (fst (snd (linearSystem0 p th om None))
                  + ts ! 0 * (th ! 0 - th ! 1) / lengths p ! 0,
                snd (snd (linearSystem0 p th om None))
                  - ts ! 0 * (th ! 0 - th ! 1) / lengths p ! 1))"
    by (simp add: linearSystem0_def Let_def)
  then show ?thesis
    using takeStep_with_forwards [of solve dt torques p None]
      linearSystem_ignores_torque [of p th om torques]
      computeAlphas_ignores_torque [of p th om torques]
      takeStep_ignores_torque [of dt torques p]
    by simp
qed

text \<open>The double pendulum with its first link horizontal and the torque \<open>[0.5]\<close>.\<close>

theorem torque_forwarded_and_ignored_witness:
  "well_formed bent_pendulum \<and> dimension bent_pendulum = 2
   \<and> takeStep (1 / 10) (Some [1 / 2]) bent_pendulum = takeStep (1 / 10) None bent_pendulum
   \<and> computeAlphas bent_pendulum [pi / 2, 0] [0, 0] (Some [1 / 2])
       = computeAlphas bent_pendulum [pi / 2, 0] [0, 0] None
   \<and> linearSystem0 bent_pendulum [pi / 2, 0] [0, 0] (Some [1 / 2])
       = (((2, 0), (0, 1)), (- (1962 / 100) + (1 / 2) * (pi / 2 - 0) / 1,
                             0 - (1 / 2) * (pi / 2 - 0) / 1))"
proof -
  have b: "well_formed bent_pendulum" "dimension bent_pendulum = 2"
    "lengths bent_pendulum = [1, 1]"
    by (simp_all add: bent_pendulum_def well_formed_def)
  show ?thesis
    using torque_forwarded_and_ignored
            [of computeAlphas "1 / 10" "Some [1 / 2]" bent_pendulum "[pi / 2, 0]" "[0, 0]" "[1 / 2]"]
      b
    by (simp add: system0_bent(1))
qed

end
